theory Spec2Isabelle
  imports Complex_Main "HOL-Library.Char_ord" "HOL-Library.List_Lexorder"
    "HOL-Library.Product_Lexorder"
begin

section \<open>Tables\<close>

text \<open>
  The program (\<^verbatim>\<open>main.py\<close>) keeps three pandas tables, loaded from CSV files at the top of
  every script run, and one page handler per menu entry. This theory embeds the two helper
  functions (\<^verbatim>\<open>save_data\<close>, \<^verbatim>\<open>load_data\<close>) and the Dashboard, Bulk Attendance, Single Entry
  and Material/Bills handlers, together with the pandas operations they call.

  Numbers are exact rationals: the rounding of binary floating point is outside the model.
  A cell of a table is a number, a text, a date object (as the date widget returns it,
  identified by the text that \<^verbatim>\<open>str\<close> gives for it) or the missing value NaN.
\<close>

datatype cell = Num rat | Str string | Day string | NaN

datatype error = KeyError string | TypeError

type_synonym series = "cell list"

text \<open>A table is the list of its columns, in order: the name and the values of each.\<close>

type_synonym dataframe = "(string \<times> series) list"

definition columns :: "dataframe \<Rightarrow> string list" where
  "columns df = map fst df"

definition nrows :: "dataframe \<Rightarrow> nat" where
  "nrows df = (case df of [] \<Rightarrow> 0 | (c, vs) # rest \<Rightarrow> length vs)"

text \<open>\<^verbatim>\<open>df.empty\<close>: no column or no row.\<close>

definition is_empty :: "dataframe \<Rightarrow> bool" where
  "is_empty df = (df = [] \<or> nrows df = 0)"

text \<open>\<^verbatim>\<open>df[c]\<close> raises KeyError for a column the table does not have.\<close>

definition getcol :: "dataframe \<Rightarrow> string \<Rightarrow> error + series" where
  "getcol df c = (case map_of df c of None \<Rightarrow> Inl (KeyError c) | Some vs \<Rightarrow> Inr vs)"

text \<open>\<^verbatim>\<open>df[c] = vs\<close> replaces the column in place, or adds it as the last column.\<close>

fun setcol :: "dataframe \<Rightarrow> string \<Rightarrow> series \<Rightarrow> dataframe" where
  "setcol [] c vs = [(c, vs)]"
| "setcol ((n, old) # df) c vs = (if n = c then (n, vs) # df else (n, old) # setcol df c vs)"

definition cell_at :: "series \<Rightarrow> nat \<Rightarrow> cell" where
  "cell_at vs i = (if i < length vs then vs ! i else NaN)"

text \<open>The cell of column \<open>c\<close> in row \<open>i\<close>, when the table has both.\<close>

definition cell_of :: "dataframe \<Rightarrow> string \<Rightarrow> nat \<Rightarrow> cell option" where
  "cell_of df c i =
     (case map_of df c of
        None \<Rightarrow> None
      | Some vs \<Rightarrow> if i < length vs then Some (vs ! i) else None)"

text \<open>The rows of a table as dictionaries (\<^verbatim>\<open>df.to_dict('records')\<close>).\<close>

type_synonym row = "(string \<times> cell) list"



text \<open>Values in order of first appearance (\<^verbatim>\<open>unique()\<close>, and the key order of a union).\<close>

definition unique_vals :: "'a list \<Rightarrow> 'a list" where
  "unique_vals xs = rev (remdups (rev xs))"

text \<open>\<^verbatim>\<open>pd.DataFrame(columns=columns)\<close>: the given columns and no row.\<close>

definition empty_frame :: "string list \<Rightarrow> dataframe" where
  "empty_frame cols = map (\<lambda>c. (c, [])) cols"

text \<open>
  \<^verbatim>\<open>pd.DataFrame(rows)\<close> for a list of dictionaries: the columns are the keys in order of
  first appearance, and a row without a key has NaN there.
\<close>

definition DataFrame :: "row list \<Rightarrow> dataframe" where
  "DataFrame recs =
     map (\<lambda>k. (k, map (\<lambda>r. case map_of r k of Some v \<Rightarrow> v | None \<Rightarrow> NaN) recs))
       (unique_vals (concat (map (map fst) recs)))"

text \<open>
  \<^verbatim>\<open>pd.concat([df1, df2], ignore_index=True)\<close>: the rows of the first table, then those of
  the second; the columns are the union in order of first appearance, and a table
  without a column has NaN in it.
\<close>

definition colvals :: "dataframe \<Rightarrow> string \<Rightarrow> series" where
  "colvals df k = (case map_of df k of Some vs \<Rightarrow> vs | None \<Rightarrow> replicate (nrows df) NaN)"

definition pd_concat :: "dataframe \<Rightarrow> dataframe \<Rightarrow> dataframe" where
  "pd_concat df1 df2 =
     map (\<lambda>k. (k, colvals df1 k @ colvals df2 k)) (unique_vals (columns df1 @ columns df2))"

section \<open>CSV stores\<close>

text \<open>
  A stored file is modelled after tokenisation: the fields of its header line and the
  fields of each data line. The file system maps a file name to its content, if the file
  exists. What counts as a numeral is pandas' matter, not the program's: the functions
  below take the reader \<open>parse\<close> and the writer \<open>fmt\<close> of numbers as parameters.
\<close>

type_synonym csv = "string list \<times> string list list"

type_synonym filesystem = "string \<rightharpoonup> csv"






definition fmt_cell :: "(rat \<Rightarrow> string) \<Rightarrow> cell \<Rightarrow> string" where
  "fmt_cell fmt c = (case c of Num r \<Rightarrow> fmt r | Str s \<Rightarrow> s | Day s \<Rightarrow> s | NaN \<Rightarrow> [])"

text \<open>\<^verbatim>\<open>df.to_csv(filename, index=False)\<close>: the header, then one line per row.\<close>

definition to_csv :: "(rat \<Rightarrow> string) \<Rightarrow> dataframe \<Rightarrow> csv" where
  "to_csv fmt df =
     (columns df, map (\<lambda>i. map (\<lambda>(c, vs). fmt_cell fmt (cell_at vs i)) df) [0..<nrows df])"

subsection \<open>The helper functions\<close>

definition LABOR_FILE :: string where "LABOR_FILE = ''labor.csv''"

definition labor_columns :: "string list" where
  "labor_columns =
     [''Date'', ''Worker'', ''Role'', ''Wage'', ''Attendance'', ''Paid_Today'', ''Notes'']"

definition expense_columns :: "string list" where
  "expense_columns = [''Date'', ''Item'', ''Category'', ''Cost'', ''Paid_To'']"


definition save_data :: "(rat \<Rightarrow> string) \<Rightarrow> dataframe \<Rightarrow> string \<Rightarrow> filesystem \<Rightarrow> filesystem" where
  "save_data fmt df filename fs = fs(filename \<mapsto> to_csv fmt df)"







section \<open>The Dashboard\<close>

definition bind_err :: "error + 'a \<Rightarrow> ('a \<Rightarrow> error + 'b) \<Rightarrow> error + 'b" where
  "bind_err m f = (case m of Inl e \<Rightarrow> Inl e | Inr x \<Rightarrow> f x)"

text \<open>
  Arithmetic is for columns of numbers, where NaN is a number too. On a column that holds a
  text or a date object pandas does not compute a number: the model reports TypeError there.
\<close>

fun is_number :: "cell \<Rightarrow> bool" where
  "is_number (Num r) = True"
| "is_number NaN = True"
| "is_number (Str s) = False"
| "is_number (Day s) = False"

definition numeric_series :: "series \<Rightarrow> bool" where
  "numeric_series vs = list_all is_number vs"

text \<open>The product of two cells: NaN if either is NaN.\<close>

fun mul_cell :: "cell \<Rightarrow> cell \<Rightarrow> cell" where
  "mul_cell (Num a) (Num b) = Num (a * b)"
| "mul_cell x y = NaN"

definition series_mul :: "series \<Rightarrow> series \<Rightarrow> error + series" where
  "series_mul xs ys =
     (if numeric_series xs \<and> numeric_series ys then Inr (map2 mul_cell xs ys)
      else Inl TypeError)"

text \<open>\<^verbatim>\<open>sum()\<close> skips NaN; the sum of no value is 0.\<close>

fun value_of :: "cell \<Rightarrow> rat" where
  "value_of (Num r) = r"
| "value_of c = 0"

definition series_sum :: "series \<Rightarrow> error + rat" where
  "series_sum vs =
     (if numeric_series vs then Inr (sum_list (map value_of vs)) else Inl TypeError)"

text \<open>
  \<^verbatim>\<open>groupby(key)[col].sum()\<close>: one group per key value other than NaN, the groups in
  ascending order of the key (numbers before texts), each with the sum of its rows.
\<close>

fun cell_key :: "cell \<Rightarrow> nat \<times> rat \<times> string" where
  "cell_key (Num r) = (0, r, [])"
| "cell_key (Str s) = (1, 0, s)"
| "cell_key (Day s) = (2, 0, s)"
| "cell_key NaN = (3, 0, [])"

definition group_keys :: "series \<Rightarrow> cell list" where
  "group_keys ks = sort_key cell_key (unique_vals (filter (\<lambda>k. k \<noteq> NaN) ks))"

definition group_sum :: "series \<Rightarrow> series \<Rightarrow> cell \<Rightarrow> rat" where
  "group_sum ks vs k = sum_list (map (\<lambda>p. value_of (snd p)) (filter (\<lambda>p. fst p = k) (zip ks vs)))"

definition groupby_sum :: "series \<Rightarrow> series \<Rightarrow> error + (cell \<times> rat) list" where
  "groupby_sum ks vs =
     (if numeric_series vs then Inr (map (\<lambda>k. (k, group_sum ks vs k)) (group_keys ks))
      else Inl TypeError)"

text \<open>Line 49: \<^verbatim>\<open>df_labor["Earned"] = df_labor["Wage"] * df_labor["Attendance"]\<close>.\<close>

definition compute_earned :: "dataframe \<Rightarrow> error + dataframe" where
  "compute_earned df_labor =
     bind_err (getcol df_labor ''Wage'') (\<lambda>wage.
     bind_err (getcol df_labor ''Attendance'') (\<lambda>att.
     bind_err (series_mul wage att) (\<lambda>earned.
     Inr (setcol df_labor ''Earned'' earned))))"

text \<open>
  Lines 70 and 71: the cost per category, and one more row for the labor payments, written
  at the first free index.
\<close>

definition spending :: "dataframe \<Rightarrow> rat \<Rightarrow> error + (cell \<times> rat) list" where
  "spending df_exp total_labor_paid =
     bind_err (getcol df_exp ''Category'') (\<lambda>category.
     bind_err (getcol df_exp ''Cost'') (\<lambda>cost.
     bind_err (groupby_sum category cost) (\<lambda>spending_data.
     Inr (spending_data @ [(Str ''Labor Payments'', total_labor_paid)]))))"

text \<open>
  Lines 77 to 80, on the three columns: the sums per worker, the balance, the rows above
  10, in descending order of the balance (rows of equal balance keep the order of the
  groups).
\<close>

definition pending_rows :: "series \<Rightarrow> series \<Rightarrow> series \<Rightarrow> error + (cell \<times> rat) list" where
  "pending_rows worker earned paid =
     bind_err (groupby_sum worker earned) (\<lambda>sum_earned.
     bind_err (groupby_sum worker paid) (\<lambda>sum_paid.
     let worker_summary = map2 (\<lambda>e p. (fst e, snd e - snd p)) sum_earned sum_paid;
         pending = filter (\<lambda>r. snd r > 10) worker_summary
     in Inr (sort_key (\<lambda>r. - snd r) pending)))"

text \<open>Lines 76 to 80: nothing is shown for an empty table.\<close>

definition pending_dues :: "dataframe \<Rightarrow> error + (cell \<times> rat) list option" where
  "pending_dues df_labor =
     (if is_empty df_labor then Inr None
      else
        bind_err (getcol df_labor ''Worker'') (\<lambda>worker.
        bind_err (getcol df_labor ''Earned'') (\<lambda>earned.
        bind_err (getcol df_labor ''Paid_Today'') (\<lambda>paid.
        bind_err (pending_rows worker earned paid) (\<lambda>pending.
        Inr (Some pending))))))"

record view =
  grand_total :: rat
  total_material :: rat
  total_labor_paid :: rat
  total_labor_earned :: rat
  labor_due :: rat
  spending_data :: "(cell \<times> rat) list"
  pending_list :: "(cell \<times> rat) list option"

definition dashboard :: "dataframe \<Rightarrow> dataframe \<Rightarrow> error + view" where
  "dashboard df_labor0 df_exp =
     bind_err (compute_earned df_labor0) (\<lambda>df_labor.
     bind_err (getcol df_labor ''Paid_Today'') (\<lambda>paid.
     bind_err (series_sum paid) (\<lambda>paid_sum.
     bind_err (getcol df_labor ''Earned'') (\<lambda>earned.
     bind_err (series_sum earned) (\<lambda>earned_sum.
     bind_err (getcol df_exp ''Cost'') (\<lambda>cost.
     bind_err (series_sum cost) (\<lambda>material.
     bind_err (spending df_exp paid_sum) (\<lambda>chart.
     bind_err (pending_dues df_labor) (\<lambda>pending.
     Inr \<lparr> grand_total = material + paid_sum,
           total_material = material,
           total_labor_paid = paid_sum,
           total_labor_earned = earned_sum,
           labor_due = earned_sum - paid_sum,
           spending_data = chart,
           pending_list = pending \<rparr>)))))))))"

section \<open>The forms\<close>

datatype message = Marked nat | NameRequired | Saved | ExpenseSaved

text \<open>Lines 98 to 107: the submit handler of the Bulk Attendance form.\<close>

definition bulk_row :: "cell \<Rightarrow> rat \<Rightarrow> rat \<Rightarrow> cell \<Rightarrow> row" where
  "bulk_row date_in wage att w =
     [(''Date'', date_in), (''Worker'', w), (''Role'', Str ''Regular''), (''Wage'', Num wage),
      (''Attendance'', Num att), (''Paid_Today'', Num 0), (''Notes'', Str ''Bulk'')]"

definition bulk_submit ::
  "(rat \<Rightarrow> string) \<Rightarrow> dataframe \<Rightarrow> filesystem \<Rightarrow> cell \<Rightarrow> series \<Rightarrow> rat \<Rightarrow> rat
     \<Rightarrow> message \<times> dataframe \<times> filesystem" where
  "bulk_submit fmt df_labor fs date_in selected wage att =
     (let new_rows = map (bulk_row date_in wage att) selected;
          df_labor' = pd_concat df_labor (DataFrame new_rows)
      in (Marked (length selected), df_labor', save_data fmt df_labor' LABOR_FILE fs))"

text \<open>
  Lines 114 to 121: the name of the Single Entry form. The selection box offers the workers
  of the table, so its value is a cell of the Worker column.
\<close>

datatype mode = ExistingWorker | NewWorker

definition final_name :: "series \<Rightarrow> mode \<Rightarrow> cell \<Rightarrow> string \<Rightarrow> cell" where
  "final_name existing m selected typed =
     (case m of
        ExistingWorker \<Rightarrow> (if existing \<noteq> [] then selected else Str [])
      | NewWorker \<Rightarrow> Str typed)"

text \<open>The truth value that \<^verbatim>\<open>not\<close> takes of a cell: an empty text and zero are false.\<close>

fun truthy :: "cell \<Rightarrow> bool" where
  "truthy (Str s) = (s \<noteq> [])"
| "truthy (Num r) = (r \<noteq> 0)"
| "truthy (Day s) = True"
| "truthy NaN = True"

text \<open>Lines 133 to 143: the submit handler of the Single Entry form.\<close>

definition single_row :: "cell \<Rightarrow> cell \<Rightarrow> rat \<Rightarrow> rat \<Rightarrow> rat \<Rightarrow> row" where
  "single_row d_date name wage att paid =
     [(''Date'', d_date), (''Worker'', name), (''Role'', Str ''Labor''), (''Wage'', Num wage),
      (''Attendance'', Num att), (''Paid_Today'', Num paid), (''Notes'', Str ''Single'')]"

definition single_submit ::
  "(rat \<Rightarrow> string) \<Rightarrow> dataframe \<Rightarrow> filesystem \<Rightarrow> cell \<Rightarrow> cell \<Rightarrow> rat \<Rightarrow> rat \<Rightarrow> rat
     \<Rightarrow> message \<times> dataframe \<times> filesystem" where
  "single_submit fmt df_labor fs name d_date wage att paid =
     (if \<not> truthy name then (NameRequired, df_labor, fs)
      else
        (let new_row = DataFrame [single_row d_date name wage att paid];
             df_labor' = pd_concat df_labor new_row
         in (Saved, df_labor', save_data fmt df_labor' LABOR_FILE fs)))"



section \<open>A run of the script\<close>





section \<open>Notions used in the statements\<close>

text \<open>Every column of the table has the table's number of rows.\<close>

definition rectangular :: "dataframe \<Rightarrow> bool" where
  "rectangular df = (\<forall>p \<in> set df. length (snd p) = nrows df)"

text \<open>The sum of column \<open>c\<close> over the rows whose column \<open>key\<close> holds exactly \<open>w\<close>.\<close>

definition total_where :: "dataframe \<Rightarrow> string \<Rightarrow> cell \<Rightarrow> string \<Rightarrow> rat" where
  "total_where df key w c =
     (\<Sum>i | i < nrows df \<and> cell_of df key i = Some w.
        (case cell_of df c i of Some v \<Rightarrow> value_of v | None \<Rightarrow> 0))"



definition ex_fmt :: "rat \<Rightarrow> string" where
  "ex_fmt r =
     (if r = 600 then ''600.0'' else if r = 1 then ''1.0''
      else if r = 200 then ''200.0'' else ''0.0'')"

definition ex_lines :: "string list list" where
  "ex_lines =
     [[''2024-01-05'', ''Ram'', ''Labor'', ''600.0'', ''1.0'', ''abc'', ''Single''],
      [''2024-01-06'', ''Sita'', ''Labor'', [], ''1.0'', ''200.0'']]"

definition ex_store :: filesystem where
  "ex_store = [LABOR_FILE \<mapsto> (labor_columns, ex_lines)]"


text \<open>The table that loading the labor file of the example store gives.\<close>

definition ex_loaded :: dataframe where
  "ex_loaded =
     [(''Date'', [Str ''2024-01-05'', Str ''2024-01-06'']),
      (''Worker'', [Str ''Ram'', Str ''Sita'']),
      (''Role'', [Str ''Labor'', Str ''Labor'']),
      (''Wage'', [Num 600, Num 0]),
      (''Attendance'', [Num 1, Num 1]),
      (''Paid_Today'', [Num 0, Num 200]),
      (''Notes'', [Str ''Single'', NaN])]"

text \<open>
  The attendance table of one row: Ram, wage 600, a full day, \<open>paid\<close> paid. The date,
  the role and the notes are any cells.
\<close>

definition ram_ledger :: "cell \<Rightarrow> cell \<Rightarrow> cell \<Rightarrow> rat \<Rightarrow> dataframe" where
  "ram_ledger d r n paid =
     [(''Date'', [d]), (''Worker'', [Str ''Ram'']), (''Role'', [r]), (''Wage'', [Num 600]),
      (''Attendance'', [Num 1]), (''Paid_Today'', [Num paid]), (''Notes'', [n])]"

text \<open>
  Two expense tables: one whose categories differ in case and in a leading blank, and
  one with an expense filed under the category of the labor payments.
\<close>

definition ex_expenses :: dataframe where
  "ex_expenses =
     [(''Category'', [Str ''Food'', Str ''food'', Str '' Food'', Str ''Food'']),
      (''Cost'', [Num 1, Num 2, Num 4, Num 8])]"

definition ex_labor_category :: dataframe where
  "ex_labor_category =
     [(''Category'', [Str ''Labor Payments'', Str ''Material'']),
      (''Cost'', [Num 50, Num 70])]"

text \<open>
  The table that the bulk form gives from an empty table for the workers A and B, wage
  500 and half a day.
\<close>

definition bulk_example :: "cell \<Rightarrow> dataframe" where
  "bulk_example d =
     [(''Date'', [d, d]), (''Worker'', [Str ''A'', Str ''B'']),
      (''Role'', [Str ''Regular'', Str ''Regular'']), (''Wage'', [Num 500, Num 500]),
      (''Attendance'', [Num (1 / 2), Num (1 / 2)]), (''Paid_Today'', [Num 0, Num 0]),
      (''Notes'', [Str ''Bulk'', Str ''Bulk''])]"









section \<open>Basic facts\<close>

lemma bind_err_Inr_iff: "bind_err m f = Inr y \<longleftrightarrow> (\<exists>x. m = Inr x \<and> f x = Inr y)"
  by (cases m) (simp_all add: bind_err_def)

lemma getcol_Inr_iff: "getcol df c = Inr vs \<longleftrightarrow> map_of df c = Some vs"
  by (simp add: getcol_def split: option.splits)

lemma set_unique_vals: "set (unique_vals xs) = set xs"
  by (simp add: unique_vals_def)

lemma distinct_unique_vals: "distinct (unique_vals xs)"
  by (simp add: unique_vals_def)

lemma rectangular_length:
  assumes "rectangular df" and "map_of df c = Some vs"
  shows "length vs = nrows df"
proof -
  from assms(2) have "(c, vs) \<in> set df" by (rule map_of_SomeD)
  with assms(1) show ?thesis by (force simp: rectangular_def)
qed

subsection \<open>Grouping\<close>

lemma set_group_keys: "set (group_keys ks) = set ks - {NaN}"
  by (auto simp: group_keys_def set_unique_vals)

lemma distinct_group_keys: "distinct (group_keys ks)"
  by (simp add: group_keys_def distinct_unique_vals)

lemma group_sum_Cons:
  "group_sum (k' # ks) (v # vs) k = (if k' = k then value_of v else 0) + group_sum ks vs k"
  by (simp add: group_sum_def)

lemma index_set_Cons:
  "{i. i < Suc n \<and> (x # xs) ! i = k} =
     (if x = k then {0} else {}) \<union> Suc ` {i. i < n \<and> xs ! i = k}"
proof -
  have "\<And>i. i < Suc n \<and> (x # xs) ! i = k \<longleftrightarrow>
          (i = 0 \<and> x = k) \<or> (\<exists>j. i = Suc j \<and> j < n \<and> xs ! j = k)"
    by (case_tac i) auto
  then show ?thesis by (auto simp: image_iff)
qed

text \<open>The sum of a group is the sum over the positions that hold its key.\<close>

lemma group_sum_index:
  "length ks = length vs \<Longrightarrow>
     group_sum ks vs k = (\<Sum>i | i < length ks \<and> ks ! i = k. value_of (vs ! i))"
proof (induction ks vs rule: list_induct2)
  case Nil
  then show ?case by (simp add: group_sum_def)
next
  case (Cons x xs y ys)
  have fin: "finite {i. i < length xs \<and> xs ! i = k}" by simp
  have disj: "0 \<notin> Suc ` {i. i < length xs \<and> xs ! i = k}" by auto
  have "(\<Sum>i\<in>Suc ` {i. i < length xs \<and> xs ! i = k}. value_of ((y # ys) ! i))
      = (\<Sum>i | i < length xs \<and> xs ! i = k. value_of (ys ! i))"
    by (simp add: sum.reindex)
  with Cons.IH fin disj show ?case
    by (simp add: group_sum_Cons index_set_Cons)
qed

lemma total_where_group_sum:
  assumes "rectangular df" "map_of df key = Some ks" "map_of df c = Some vs"
  shows "total_where df key w c = group_sum ks vs w"
proof -
  have lk: "length ks = nrows df" and lv: "length vs = nrows df"
    using assms by (auto dest: rectangular_length)
  have "total_where df key w c = (\<Sum>i | i < length ks \<and> ks ! i = w. value_of (vs ! i))"
    unfolding total_where_def
    by (rule sum.cong) (auto simp: cell_of_def assms lk lv)
  also have "\<dots> = group_sum ks vs w"
    using lk lv by (simp add: group_sum_index)
  finally show ?thesis .
qed

section \<open>Pending dues\<close>








section \<open>Loading and saving\<close>


lemma map_of_setcol: "map_of (setcol df c ws) = (map_of df)(c \<mapsto> ws)"
  by (induction df c ws rule: setcol.induct) (auto simp: fun_eq_iff)













lemma nrows_lengths: "\<forall>p\<in>set df. length (snd p) = n \<Longrightarrow> df \<noteq> [] \<Longrightarrow> nrows df = n"
  by (cases df) (auto simp: nrows_def)

lemma rectangular_lengths: "\<forall>p\<in>set df. length (snd p) = n \<Longrightarrow> rectangular df"
  by (cases df) (auto simp: rectangular_def nrows_def)






section \<open>Earned\<close>














section \<open>The metrics of the Dashboard\<close>

lemma series_sum_Inr_iff:
  "series_sum vs = Inr s \<longleftrightarrow> numeric_series vs \<and> s = sum_list (map value_of vs)"
  by (auto simp: series_sum_def)

lemma series_mul_Inr_iff:
  "series_mul xs ys = Inr zs \<longleftrightarrow>
     numeric_series xs \<and> numeric_series ys \<and> zs = map2 mul_cell xs ys"
  by (auto simp: series_mul_def)

lemma compute_earned_Inr_iff:
  "compute_earned df = Inr df' \<longleftrightarrow>
     (\<exists>wage att. map_of df ''Wage'' = Some wage \<and> map_of df ''Attendance'' = Some att \<and>
        numeric_series wage \<and> numeric_series att \<and>
        df' = setcol df ''Earned'' (map2 mul_cell wage att))"
  by (auto simp: compute_earned_def bind_err_Inr_iff getcol_Inr_iff series_mul_Inr_iff)

lemma dashboard_Inr:
  assumes "dashboard df_labor df_exp = Inr v"
  shows "\<exists>wage att paid cost chart pending.
     map_of df_labor ''Wage'' = Some wage \<and> map_of df_labor ''Attendance'' = Some att \<and>
     map_of df_labor ''Paid_Today'' = Some paid \<and> map_of df_exp ''Cost'' = Some cost \<and>
     numeric_series wage \<and> numeric_series att \<and> numeric_series paid \<and> numeric_series cost \<and>
     spending df_exp (sum_list (map value_of paid)) = Inr chart \<and>
     pending_dues (setcol df_labor ''Earned'' (map2 mul_cell wage att)) = Inr pending \<and>
     v = \<lparr> grand_total = sum_list (map value_of cost) + sum_list (map value_of paid),
           total_material = sum_list (map value_of cost),
           total_labor_paid = sum_list (map value_of paid),
           total_labor_earned = sum_list (map value_of (map2 mul_cell wage att)),
           labor_due = sum_list (map value_of (map2 mul_cell wage att))
                       - sum_list (map value_of paid),
           spending_data = chart, pending_list = pending \<rparr>"
  using assms
  by (auto simp: dashboard_def bind_err_Inr_iff getcol_Inr_iff series_sum_Inr_iff
      compute_earned_Inr_iff map_of_setcol)

text \<open>
  C3. Whenever the Dashboard computes its view, the totals are the sums of the columns
  Paid\_Today, Earned (the products of line 49) and Cost, the labor due is the total earned
  less the total paid, and the grand total is the material total plus the total paid. For
  the one row of Ram with 200 paid and no expense, the view is: earned 600, paid 200, due
  400, Ram pending with 400, grand total 200. With 1000 paid the labor due is -400: it is
  not clamped.
\<close>

theorem dashboard_metrics:
  "(dashboard df_labor df_exp = Inr v \<longrightarrow>
      (\<exists>wage att paid cost.
         getcol df_labor ''Wage'' = Inr wage \<and> getcol df_labor ''Attendance'' = Inr att \<and>
         getcol df_labor ''Paid_Today'' = Inr paid \<and> getcol df_exp ''Cost'' = Inr cost \<and>
         total_labor_paid v = sum_list (map value_of paid) \<and>
         total_labor_earned v = sum_list (map value_of (map2 mul_cell wage att)) \<and>
         total_material v = sum_list (map value_of cost)) \<and>
      labor_due v = total_labor_earned v - total_labor_paid v \<and>
      grand_total v = total_material v + total_labor_paid v) \<and>
   dashboard (ram_ledger d r n 200) (empty_frame expense_columns) =
     Inr \<lparr> grand_total = 200, total_material = 0, total_labor_paid = 200,
           total_labor_earned = 600, labor_due = 400,
           spending_data = [(Str ''Labor Payments'', 200)],
           pending_list = Some [(Str ''Ram'', 400)] \<rparr> \<and>
   (\<exists>v'. dashboard (ram_ledger d r n 1000) (empty_frame expense_columns) = Inr v' \<and>
      labor_due v' = - 400)"
proof (intro conjI impI)
  assume a: "dashboard df_labor df_exp = Inr v"
  from dashboard_Inr [OF a]
  show "\<exists>wage att paid cost.
         getcol df_labor ''Wage'' = Inr wage \<and> getcol df_labor ''Attendance'' = Inr att \<and>
         getcol df_labor ''Paid_Today'' = Inr paid \<and> getcol df_exp ''Cost'' = Inr cost \<and>
         total_labor_paid v = sum_list (map value_of paid) \<and>
         total_labor_earned v = sum_list (map value_of (map2 mul_cell wage att)) \<and>
         total_material v = sum_list (map value_of cost)"
    by (auto simp: getcol_Inr_iff)
  from dashboard_Inr [OF a]
  show "labor_due v = total_labor_earned v - total_labor_paid v" by auto
  from dashboard_Inr [OF a]
  show "grand_total v = total_material v + total_labor_paid v" by auto
next
  show "dashboard (ram_ledger d r n 200) (empty_frame expense_columns) =
     Inr \<lparr> grand_total = 200, total_material = 0, total_labor_paid = 200,
           total_labor_earned = 600, labor_due = 400,
           spending_data = [(Str ''Labor Payments'', 200)],
           pending_list = Some [(Str ''Ram'', 400)] \<rparr>"
    by (simp add: ram_ledger_def dashboard_def compute_earned_def bind_err_def getcol_def
        series_mul_def numeric_series_def series_sum_def empty_frame_def expense_columns_def
        spending_def groupby_sum_def group_keys_def unique_vals_def pending_dues_def
        is_empty_def nrows_def pending_rows_def group_sum_def)
next
  have "dashboard (ram_ledger d r n 1000) (empty_frame expense_columns) =
     Inr \<lparr> grand_total = 1000, total_material = 0, total_labor_paid = 1000,
           total_labor_earned = 600, labor_due = - 400,
           spending_data = [(Str ''Labor Payments'', 1000)],
           pending_list = Some [] \<rparr>"
    by (simp add: ram_ledger_def dashboard_def compute_earned_def bind_err_def getcol_def
        series_mul_def numeric_series_def series_sum_def empty_frame_def expense_columns_def
        spending_def groupby_sum_def group_keys_def unique_vals_def pending_dues_def
        is_empty_def nrows_def pending_rows_def group_sum_def)
  then show "\<exists>v'. dashboard (ram_ledger d r n 1000) (empty_frame expense_columns) = Inr v' \<and>
      labor_due v' = - 400"
    by simp
qed


theorem dashboard_metrics_witness:
  "dashboard (ram_ledger (Day ''2024-01-05'') (Str ''Labor'') (Str ''Single'') 200)
       (empty_frame expense_columns) =
     Inr \<lparr> grand_total = 200, total_material = 0, total_labor_paid = 200,
           total_labor_earned = 600, labor_due = 400,
           spending_data = [(Str ''Labor Payments'', 200)],
           pending_list = Some [(Str ''Ram'', 400)] \<rparr> \<and>
   labor_due \<lparr> grand_total = 200, total_material = 0, total_labor_paid = 200,
           total_labor_earned = 600, labor_due = 400,
           spending_data = [(Str ''Labor Payments'', 200)],
           pending_list = Some [(Str ''Ram'', 400)] \<rparr> = 600 - 200 \<and>
   grand_total \<lparr> grand_total = 200, total_material = 0, total_labor_paid = 200,
           total_labor_earned = 600, labor_due = 400,
           spending_data = [(Str ''Labor Payments'', 200)],
           pending_list = Some [(Str ''Ram'', 400)] \<rparr> = 0 + 200"
proof -
  note t = dashboard_metrics [where
      df_labor = "ram_ledger (Day ''2024-01-05'') (Str ''Labor'') (Str ''Single'') 200"
      and df_exp = "empty_frame expense_columns"
      and v = "\<lparr> grand_total = 200, total_material = 0, total_labor_paid = 200,
           total_labor_earned = 600, labor_due = 400,
           spending_data = [(Str ''Labor Payments'', 200)],
           pending_list = Some [(Str ''Ram'', 400)] \<rparr>"
      and d = "Day ''2024-01-05''" and r = "Str ''Labor''" and n = "Str ''Single''"]
  from t have h: "dashboard (ram_ledger (Day ''2024-01-05'') (Str ''Labor'') (Str ''Single'') 200)
       (empty_frame expense_columns) =
     Inr \<lparr> grand_total = 200, total_material = 0, total_labor_paid = 200,
           total_labor_earned = 600, labor_due = 400,
           spending_data = [(Str ''Labor Payments'', 200)],
           pending_list = Some [(Str ''Ram'', 400)] \<rparr>"
    by blast
  with t show ?thesis by simp
qed

section \<open>Spending by category\<close>

lemma spending_Inr_iff:
  "spending df_exp p = Inr chart \<longleftrightarrow>
     (\<exists>cat cost. map_of df_exp ''Category'' = Some cat \<and> map_of df_exp ''Cost'' = Some cost \<and>
        numeric_series cost \<and>
        chart = map (\<lambda>k. (k, group_sum cat cost k)) (group_keys cat)
                  @ [(Str ''Labor Payments'', p)])"
  by (auto simp: spending_def bind_err_Inr_iff getcol_Inr_iff groupby_sum_def)

lemma dashboard_spending:
  "dashboard df_labor df_exp = Inr v \<Longrightarrow>
     spending df_exp (total_labor_paid v) = Inr (spending_data v)"
  by (drule dashboard_Inr) auto

lemma grouped_entries:
  assumes r: "rectangular df" and c: "map_of df key = Some ks" and v: "map_of df col = Some vs"
  shows "(k, s) \<in> set (map (\<lambda>k. (k, group_sum ks vs k)) (group_keys ks)) \<longleftrightarrow>
     (\<exists>i<nrows df. cell_of df key i = Some k) \<and> k \<noteq> NaN \<and> s = total_where df key k col"
proof -
  have l: "length ks = nrows df" using r c by (rule rectangular_length)
  have mem: "k \<in> set ks \<longleftrightarrow> (\<exists>i<nrows df. cell_of df key i = Some k)"
    by (auto simp: cell_of_def c l in_set_conv_nth)
  have "(k, s) \<in> set (map (\<lambda>k. (k, group_sum ks vs k)) (group_keys ks)) \<longleftrightarrow>
      k \<in> set ks \<and> k \<noteq> NaN \<and> s = group_sum ks vs k"
    by (auto simp: set_group_keys)
  then show ?thesis
    by (simp add: mem total_where_group_sum [OF r c v])
qed

text \<open>
  C4. The chart data is one entry per category of the expense table, with the sum of
  Cost over the rows of exactly that category, followed by the entry of the labor
  payments; the Dashboard passes the total of Paid\_Today as its value. Categories that
  differ in case or in a blank are different categories. Without expenses the chart has the
  one entry of the labor payments, which is 0 when the attendance table is empty as well.
\<close>

theorem spending_spec:
  "(spending df_exp paid = Inr chart \<and> rectangular df_exp \<longrightarrow>
      (\<exists>g. chart = g @ [(Str ''Labor Payments'', paid)] \<and> distinct (map fst g) \<and>
         (\<forall>k s. (k, s) \<in> set g \<longleftrightarrow>
            (\<exists>i<nrows df_exp. cell_of df_exp ''Category'' i = Some k) \<and> k \<noteq> NaN \<and>
            s = total_where df_exp ''Category'' k ''Cost''))) \<and>
   (dashboard df_labor df_exp = Inr v \<longrightarrow>
      spending df_exp (total_labor_paid v) = Inr (spending_data v)) \<and>
   spending ex_expenses paid =
     Inr [(Str '' Food'', 4), (Str ''Food'', 9), (Str ''food'', 2),
          (Str ''Labor Payments'', paid)] \<and>
   spending (empty_frame expense_columns) paid = Inr [(Str ''Labor Payments'', paid)] \<and>
   (\<exists>v0. dashboard (empty_frame labor_columns) (empty_frame expense_columns) = Inr v0 \<and>
      spending_data v0 = [(Str ''Labor Payments'', 0)])"
proof (intro conjI impI)
  assume a: "spending df_exp paid = Inr chart \<and> rectangular df_exp"
  then obtain cat cost where
    c: "map_of df_exp ''Category'' = Some cat" and v: "map_of df_exp ''Cost'' = Some cost" and
    ch: "chart = map (\<lambda>k. (k, group_sum cat cost k)) (group_keys cat)
                  @ [(Str ''Labor Payments'', paid)]"
    by (auto simp: spending_Inr_iff)
  from a have r: "rectangular df_exp" by simp
  define g where "g = map (\<lambda>k. (k, group_sum cat cost k)) (group_keys cat)"
  have 1: "chart = g @ [(Str ''Labor Payments'', paid)]" by (simp add: ch g_def)
  have 2: "distinct (map fst g)" by (simp add: g_def o_def distinct_group_keys)
  have 3: "\<forall>k s. (k, s) \<in> set g \<longleftrightarrow>
            (\<exists>i<nrows df_exp. cell_of df_exp ''Category'' i = Some k) \<and> k \<noteq> NaN \<and>
            s = total_where df_exp ''Category'' k ''Cost''"
    unfolding g_def using grouped_entries [OF r c v] by blast
  from 1 2 3
  show "\<exists>g. chart = g @ [(Str ''Labor Payments'', paid)] \<and> distinct (map fst g) \<and>
         (\<forall>k s. (k, s) \<in> set g \<longleftrightarrow>
            (\<exists>i<nrows df_exp. cell_of df_exp ''Category'' i = Some k) \<and> k \<noteq> NaN \<and>
            s = total_where df_exp ''Category'' k ''Cost'')"
    by blast
next
  assume "dashboard df_labor df_exp = Inr v"
  then show "spending df_exp (total_labor_paid v) = Inr (spending_data v)"
    by (rule dashboard_spending)
next
  show "spending ex_expenses paid =
     Inr [(Str '' Food'', 4), (Str ''Food'', 9), (Str ''food'', 2),
          (Str ''Labor Payments'', paid)]"
    by (simp add: ex_expenses_def spending_def getcol_def bind_err_def groupby_sum_def
        numeric_series_def group_keys_def unique_vals_def group_sum_def less_char_def
        less_eq_char_def)
next
  show "spending (empty_frame expense_columns) paid = Inr [(Str ''Labor Payments'', paid)]"
    by (simp add: empty_frame_def expense_columns_def spending_def getcol_def bind_err_def
        groupby_sum_def numeric_series_def group_keys_def unique_vals_def)
next
  have "dashboard (empty_frame labor_columns) (empty_frame expense_columns) =
     Inr \<lparr> grand_total = 0, total_material = 0, total_labor_paid = 0,
           total_labor_earned = 0, labor_due = 0,
           spending_data = [(Str ''Labor Payments'', 0)], pending_list = None \<rparr>"
    by (simp add: dashboard_def compute_earned_def bind_err_def getcol_def
        series_mul_def numeric_series_def series_sum_def empty_frame_def expense_columns_def
        labor_columns_def spending_def groupby_sum_def group_keys_def unique_vals_def
        pending_dues_def is_empty_def nrows_def)
  then show "\<exists>v0. dashboard (empty_frame labor_columns) (empty_frame expense_columns) = Inr v0 \<and>
      spending_data v0 = [(Str ''Labor Payments'', 0)]"
    by simp
qed


theorem spending_spec_witness:
  "spending ex_expenses 200 =
     Inr [(Str '' Food'', 4), (Str ''Food'', 9), (Str ''food'', 2),
          (Str ''Labor Payments'', 200)] \<and>
   rectangular ex_expenses \<and>
   (\<exists>g. [(Str '' Food'', 4), (Str ''Food'', 9), (Str ''food'', 2),
          (Str ''Labor Payments'', 200 :: rat)] = g @ [(Str ''Labor Payments'', 200)] \<and>
      distinct (map fst g) \<and>
      (\<forall>k s. (k, s) \<in> set g \<longleftrightarrow>
         (\<exists>i<nrows ex_expenses. cell_of ex_expenses ''Category'' i = Some k) \<and> k \<noteq> NaN \<and>
         s = total_where ex_expenses ''Category'' k ''Cost'')) \<and>
   (\<exists>v0. dashboard (empty_frame labor_columns) (empty_frame expense_columns) = Inr v0 \<and>
      spending (empty_frame expense_columns) (total_labor_paid v0) = Inr (spending_data v0))"
proof -
  note t = spending_spec [where df_exp = ex_expenses and paid = 200 and chart =
      "[(Str '' Food'', 4), (Str ''Food'', 9), (Str ''food'', 2), (Str ''Labor Payments'', 200)]"]
  have r: "rectangular ex_expenses"
    by (simp add: ex_expenses_def rectangular_def nrows_def)
  from t have s: "spending ex_expenses 200 =
     Inr [(Str '' Food'', 4), (Str ''Food'', 9), (Str ''food'', 2),
          (Str ''Labor Payments'', 200)]"
    by blast
  from t obtain v0 where
    v0: "dashboard (empty_frame labor_columns) (empty_frame expense_columns) = Inr v0"
    by blast
  from spending_spec [where df_labor = "empty_frame labor_columns"
      and df_exp = "empty_frame expense_columns" and v = v0] v0
  have "spending (empty_frame expense_columns) (total_labor_paid v0) = Inr (spending_data v0)"
    by blast
  with t r s v0 show ?thesis by blast
qed

lemma count_key_once:
  "distinct (map fst g) \<Longrightarrow> (k, s) \<in> set g \<Longrightarrow> length (filter (\<lambda>e. fst e = k) g) = 1"
proof (induction g)
  case Nil
  then show ?case by simp
next
  case (Cons e g)
  show ?case
  proof (cases "fst e = k")
    case True
    with Cons.prems(1) have "k \<notin> fst ` set g" by simp
    then have "\<forall>x \<in> set g. fst x \<noteq> k" by (auto simp: image_iff)
    then have "filter (\<lambda>e. fst e = k) g = []" by (simp add: filter_empty_conv)
    with True show ?thesis by simp
  next
    case False
    with Cons.prems have "(k, s) \<in> set g" and "distinct (map fst g)" by auto
    with Cons.IH False show ?thesis by simp
  qed
qed

text \<open>
  C10. When an expense row has the category of the labor payments, the chart data has
  two entries under that key: the sum of these expenses among the grouped entries, and
  the appended total of the payments.
\<close>

theorem labor_payments_twice:
  assumes "spending df_exp paid = Inr chart" and "rectangular df_exp"
    and "i < nrows df_exp" and "cell_of df_exp ''Category'' i = Some (Str ''Labor Payments'')"
  shows "\<exists>g. chart = g @ [(Str ''Labor Payments'', paid)] \<and>
           (Str ''Labor Payments'',
            total_where df_exp ''Category'' (Str ''Labor Payments'') ''Cost'') \<in> set g \<and>
           length (filter (\<lambda>e. fst e = Str ''Labor Payments'') chart) = 2"
proof -
  from assms(1) obtain cat cost where
    c: "map_of df_exp ''Category'' = Some cat" and v: "map_of df_exp ''Cost'' = Some cost" and
    ch: "chart = map (\<lambda>k. (k, group_sum cat cost k)) (group_keys cat)
                  @ [(Str ''Labor Payments'', paid)]"
    by (auto simp: spending_Inr_iff)
  define g where "g = map (\<lambda>k. (k, group_sum cat cost k)) (group_keys cat)"
  define t where "t = total_where df_exp ''Category'' (Str ''Labor Payments'') ''Cost''"
  have 1: "chart = g @ [(Str ''Labor Payments'', paid)]" by (simp add: ch g_def)
  have d: "distinct (map fst g)" by (simp add: g_def o_def distinct_group_keys)
  have 2: "(Str ''Labor Payments'', t) \<in> set g"
    unfolding g_def t_def using grouped_entries [OF assms(2) c v] assms(3,4) by blast
  from d 2 have "length (filter (\<lambda>e. fst e = Str ''Labor Payments'') g) = 1"
    by (rule count_key_once)
  then have 3: "length (filter (\<lambda>e. fst e = Str ''Labor Payments'') chart) = 2"
    by (simp add: 1)
  from 1 2 3 show ?thesis unfolding t_def by blast
qed

theorem labor_payments_twice_witness:
  "spending ex_labor_category 200 =
     Inr [(Str ''Labor Payments'', 50), (Str ''Material'', 70), (Str ''Labor Payments'', 200)] \<and>
   rectangular ex_labor_category \<and> 0 < nrows ex_labor_category \<and>
   cell_of ex_labor_category ''Category'' 0 = Some (Str ''Labor Payments'') \<and>
   (\<exists>g. [(Str ''Labor Payments'', 50), (Str ''Material'', 70),
          (Str ''Labor Payments'', 200 :: rat)] = g @ [(Str ''Labor Payments'', 200)] \<and>
      (Str ''Labor Payments'',
       total_where ex_labor_category ''Category'' (Str ''Labor Payments'') ''Cost'') \<in> set g \<and>
      length (filter (\<lambda>e. fst e = Str ''Labor Payments'')
        [(Str ''Labor Payments'', 50), (Str ''Material'', 70),
         (Str ''Labor Payments'', 200 :: rat)]) = 2)"
proof -
  have s: "spending ex_labor_category 200 =
     Inr [(Str ''Labor Payments'', 50), (Str ''Material'', 70), (Str ''Labor Payments'', 200)]"
    by (simp add: ex_labor_category_def spending_def getcol_def bind_err_def groupby_sum_def
        numeric_series_def group_keys_def unique_vals_def group_sum_def less_char_def
        less_eq_char_def)
  have r: "rectangular ex_labor_category"
    by (simp add: ex_labor_category_def rectangular_def nrows_def)
  have n: "0 < nrows ex_labor_category"
    by (simp add: ex_labor_category_def nrows_def)
  have c: "cell_of ex_labor_category ''Category'' 0 = Some (Str ''Labor Payments'')"
    by (simp add: ex_labor_category_def cell_of_def)
  from labor_payments_twice [OF s r n c] s r n c show ?thesis by blast
qed

section \<open>Appending rows\<close>

lemma map_of_keyed: "map_of (map (\<lambda>k. (k, f k)) ks) k = (if k \<in> set ks then Some (f k) else None)"
  by (induction ks) auto

lemma nrows_keyed: "nrows (map (\<lambda>k. (k, f k)) ks) = (case ks of [] \<Rightarrow> 0 | k # rest \<Rightarrow> length (f k))"
  by (cases ks) (simp_all add: nrows_def)


lemma length_colvals: "rectangular df \<Longrightarrow> length (colvals df k) = nrows df"
  by (auto simp: colvals_def dest: rectangular_length split: option.splits)


lemma map_of_pd_concat:
  "map_of (pd_concat df1 df2) k =
     (if k \<in> set (columns df1) \<union> set (columns df2)
      then Some (colvals df1 k @ colvals df2 k) else None)"
  by (simp add: pd_concat_def map_of_keyed set_unique_vals)

lemma lengths_pd_concat:
  assumes "rectangular df1" "rectangular df2"
  shows "\<forall>p\<in>set (pd_concat df1 df2). length (snd p) = nrows df1 + nrows df2"
  using assms by (auto simp: pd_concat_def length_colvals)

lemma columns_Nil_iff: "columns df = [] \<longleftrightarrow> df = []"
  by (simp add: columns_def)

lemma nrows_pd_concat:
  assumes "rectangular df1" "rectangular df2"
  shows "nrows (pd_concat df1 df2) = nrows df1 + nrows df2"
proof (cases "pd_concat df1 df2 = []")
  case True
  then have "unique_vals (columns df1 @ columns df2) = []"
    by (simp add: pd_concat_def)
  then have "set (columns df1 @ columns df2) = {}"
    by (metis set_unique_vals set_empty)
  then have "df1 = []" "df2 = []" by (simp_all add: columns_Nil_iff)
  with True show ?thesis by (simp add: nrows_def)
next
  case False
  with lengths_pd_concat [OF assms] show ?thesis by (rule nrows_lengths)
qed

lemma rectangular_pd_concat:
  assumes "rectangular df1" "rectangular df2"
  shows "rectangular (pd_concat df1 df2)"
  using lengths_pd_concat [OF assms] by (rule rectangular_lengths)

lemma set_columns_map_of: "c \<in> set (columns df) \<longleftrightarrow> map_of df c \<noteq> None"
  by (simp add: columns_def map_of_eq_None_iff)

text \<open>The rows of the first table keep their cells.\<close>

lemma cell_of_pd_concat_old:
  assumes "rectangular df1" and "c \<in> set (columns df1)" and "i < nrows df1"
  shows "cell_of (pd_concat df1 df2) c i = cell_of df1 c i"
proof -
  from assms(2) obtain vs where vs: "map_of df1 c = Some vs"
    by (auto simp: set_columns_map_of)
  with assms(1) have l: "length vs = nrows df1" by (auto dest: rectangular_length)
  with assms(2,3) vs show ?thesis
    by (simp add: cell_of_def map_of_pd_concat colvals_def nth_append)
qed

text \<open>The rows of the second table follow those of the first.\<close>

lemma cell_of_pd_concat_new:
  assumes "rectangular df1" and "map_of df2 c = Some ws" and "i < length ws"
  shows "cell_of (pd_concat df1 df2) c (nrows df1 + i) = Some (ws ! i)"
proof -
  have "c \<in> set (columns df2)" using assms(2) by (simp add: set_columns_map_of)
  moreover have "length (colvals df1 c) = nrows df1" using assms(1) by (rule length_colvals)
  moreover have "colvals df2 c = ws" using assms(2) by (simp add: colvals_def)
  ultimately show ?thesis
    using assms(3) by (simp add: cell_of_def map_of_pd_concat nth_append)
qed

subsection \<open>Tables made of records with the same keys\<close>

lemma keys_of_records:
  assumes "\<forall>r \<in> set recs. map fst r = K"
  shows "set (unique_vals (concat (map (map fst) recs))) = (if recs = [] then {} else set K)"
  using assms by (auto simp: set_unique_vals)

lemma map_of_DataFrame:
  assumes "\<forall>r \<in> set recs. map fst r = K" and "recs \<noteq> []" and "k \<in> set K"
  shows "map_of (DataFrame recs) k
           = Some (map (\<lambda>r. case map_of r k of Some v \<Rightarrow> v | None \<Rightarrow> NaN) recs)"
proof -
  have "set (unique_vals (concat (map (map fst) recs))) = set K"
    using keys_of_records [OF assms(1)] assms(2) by simp
  with assms(3) show ?thesis by (simp add: DataFrame_def map_of_keyed)
qed


lemma lengths_DataFrame: "\<forall>p\<in>set (DataFrame recs). length (snd p) = length recs"
  by (auto simp: DataFrame_def)

lemma rectangular_DataFrame: "rectangular (DataFrame recs)"
  using lengths_DataFrame by (rule rectangular_lengths)

lemma nrows_DataFrame:
  assumes "\<forall>r \<in> set recs. map fst r = K" and "K \<noteq> []"
  shows "nrows (DataFrame recs) = length recs"
proof (cases "recs = []")
  case True
  then show ?thesis by (simp add: DataFrame_def unique_vals_def nrows_def)
next
  case False
  with keys_of_records [OF assms(1)] assms(2)
  have "unique_vals (concat (map (map fst) recs)) \<noteq> []" by auto
  then have "DataFrame recs \<noteq> []" by (simp add: DataFrame_def)
  with lengths_DataFrame show ?thesis by (rule nrows_lengths)
qed

text \<open>Appending records that all have the keys \<open>K\<close>.\<close>

lemma append_records:
  assumes r: "rectangular df" and k: "\<forall>r \<in> set recs. map fst r = K" and ne: "K \<noteq> []"
  defines "df' \<equiv> pd_concat df (DataFrame recs)"
  shows "rectangular df'" and "nrows df' = nrows df + length recs"
    and "\<And>i c. i < nrows df \<Longrightarrow> c \<in> set (columns df) \<Longrightarrow> cell_of df' c i = cell_of df c i"
    and "\<And>i c. i < length recs \<Longrightarrow> c \<in> set K \<Longrightarrow>
           cell_of df' c (nrows df + i) = Some (case map_of (recs ! i) c of Some v \<Rightarrow> v | None \<Rightarrow> NaN)"
proof -
  show "rectangular df'"
    unfolding df'_def using r rectangular_DataFrame by (rule rectangular_pd_concat)
  show "nrows df' = nrows df + length recs"
    unfolding df'_def
    by (simp add: nrows_pd_concat [OF r rectangular_DataFrame] nrows_DataFrame [OF k ne])
  show "cell_of df' c i = cell_of df c i" if "i < nrows df" "c \<in> set (columns df)" for i c
    unfolding df'_def using r that(2,1) by (rule cell_of_pd_concat_old)
  show "cell_of df' c (nrows df + i) = Some (case map_of (recs ! i) c of Some v \<Rightarrow> v | None \<Rightarrow> NaN)"
    if i: "i < length recs" and c: "c \<in> set K" for i c
  proof -
    from i have n: "recs \<noteq> []" by auto
    from k n c have m: "map_of (DataFrame recs) c
        = Some (map (\<lambda>r. case map_of r c of Some v \<Rightarrow> v | None \<Rightarrow> NaN) recs)"
      by (rule map_of_DataFrame)
    from cell_of_pd_concat_new [OF r m, of i] i show ?thesis
      by (simp add: df'_def)
  qed
qed


section \<open>The attendance forms\<close>

lemma cell_of_Some_iff:
  "cell_of df c i = Some v \<longleftrightarrow> (\<exists>vs. map_of df c = Some vs \<and> i < length vs \<and> vs ! i = v)"
  by (auto simp: cell_of_def split: option.splits)

lemma cell_of_compute_earned:
  assumes "compute_earned df = Inr df'"
    and "cell_of df ''Wage'' i = Some (Num w)" and "cell_of df ''Attendance'' i = Some (Num a)"
  shows "cell_of df' ''Earned'' i = Some (Num (w * a))"
proof -
  from assms(1) obtain wage att where
    m: "map_of df ''Wage'' = Some wage" "map_of df ''Attendance'' = Some att" and
    d: "df' = setcol df ''Earned'' (map2 mul_cell wage att)"
    by (auto simp: compute_earned_Inr_iff)
  from assms(2,3) m have "i < length wage" "wage ! i = Num w" "i < length att" "att ! i = Num a"
    by (auto simp: cell_of_Some_iff)
  then show ?thesis
    by (simp add: d cell_of_def map_of_setcol)
qed

lemma bulk_rows_keys:
  "\<forall>r \<in> set (map (bulk_row date_in wage att) selected). map fst r = labor_columns"
  by (simp add: bulk_row_def labor_columns_def)

text \<open>
  C7. The bulk form appends one row per selected worker, in the order of the selection,
  and saves the table: the earlier rows keep their cells, and each new row has the given
  date, its worker, the role Regular, the given wage and attendance, 0 paid and the note
  Bulk; after line 49 its Earned is the product of the wage and the attendance. For the
  workers A and B, wage 500 and half a day, that is two rows with Earned 250.
\<close>

theorem bulk_submit_spec:
  "(rectangular df_labor \<longrightarrow>
     (\<exists>df'. bulk_submit fmt df_labor fs date_in selected wage att
               = (Marked (length selected), df', fs(LABOR_FILE \<mapsto> to_csv fmt df')) \<and>
        rectangular df' \<and> nrows df' = nrows df_labor + length selected \<and>
        (\<forall>i<nrows df_labor. \<forall>c \<in> set (columns df_labor). cell_of df' c i = cell_of df_labor c i) \<and>
        (\<forall>i<length selected.
           cell_of df' ''Date'' (nrows df_labor + i) = Some date_in \<and>
           cell_of df' ''Worker'' (nrows df_labor + i) = Some (selected ! i) \<and>
           cell_of df' ''Role'' (nrows df_labor + i) = Some (Str ''Regular'') \<and>
           cell_of df' ''Wage'' (nrows df_labor + i) = Some (Num wage) \<and>
           cell_of df' ''Attendance'' (nrows df_labor + i) = Some (Num att) \<and>
           cell_of df' ''Paid_Today'' (nrows df_labor + i) = Some (Num 0) \<and>
           cell_of df' ''Notes'' (nrows df_labor + i) = Some (Str ''Bulk'') \<and>
           (\<forall>df''. compute_earned df' = Inr df'' \<longrightarrow>
              cell_of df'' ''Earned'' (nrows df_labor + i) = Some (Num (wage * att)))))) \<and>
   bulk_submit fmt (empty_frame labor_columns) fs d [Str ''A'', Str ''B''] 500 (1 / 2)
     = (Marked 2, bulk_example d, fs(LABOR_FILE \<mapsto> to_csv fmt (bulk_example d))) \<and>
   compute_earned (bulk_example d) = Inr (bulk_example d @ [(''Earned'', [Num 250, Num 250])])"
proof (intro conjI impI)
  assume r: "rectangular df_labor"
  define recs where "recs = map (bulk_row date_in wage att) selected"
  define df' where "df' = pd_concat df_labor (DataFrame recs)"
  have k: "\<forall>r \<in> set recs. map fst r = labor_columns"
    unfolding recs_def by (rule bulk_rows_keys)
  have ne: "labor_columns \<noteq> []" by (simp add: labor_columns_def)
  note a = append_records [OF r k ne, folded df'_def]
  have 1: "bulk_submit fmt df_labor fs date_in selected wage att
               = (Marked (length selected), df', fs(LABOR_FILE \<mapsto> to_csv fmt df'))"
    by (simp add: bulk_submit_def Let_def save_data_def df'_def recs_def)
  have 2: "nrows df' = nrows df_labor + length selected"
    using a(2) by (simp add: recs_def)
  have 3: "\<forall>i<nrows df_labor. \<forall>c \<in> set (columns df_labor). cell_of df' c i = cell_of df_labor c i"
    using a(3) by blast
  have new: "cell_of df' c (nrows df_labor + i)
      = Some (case map_of (bulk_row date_in wage att (selected ! i)) c of
                Some v \<Rightarrow> v | None \<Rightarrow> NaN)"
    if "i < length selected" "c \<in> set labor_columns" for i c
    using a(4) [of i c] that by (simp add: recs_def)
  have 4: "cell_of df' ''Date'' (nrows df_labor + i) = Some date_in \<and>
           cell_of df' ''Worker'' (nrows df_labor + i) = Some (selected ! i) \<and>
           cell_of df' ''Role'' (nrows df_labor + i) = Some (Str ''Regular'') \<and>
           cell_of df' ''Wage'' (nrows df_labor + i) = Some (Num wage) \<and>
           cell_of df' ''Attendance'' (nrows df_labor + i) = Some (Num att) \<and>
           cell_of df' ''Paid_Today'' (nrows df_labor + i) = Some (Num 0) \<and>
           cell_of df' ''Notes'' (nrows df_labor + i) = Some (Str ''Bulk'') \<and>
           (\<forall>df''. compute_earned df' = Inr df'' \<longrightarrow>
              cell_of df'' ''Earned'' (nrows df_labor + i) = Some (Num (wage * att)))"
    if i: "i < length selected" for i
  proof -
    have c: "cell_of df' ''Date'' (nrows df_labor + i) = Some date_in"
      "cell_of df' ''Worker'' (nrows df_labor + i) = Some (selected ! i)"
      "cell_of df' ''Role'' (nrows df_labor + i) = Some (Str ''Regular'')"
      "cell_of df' ''Wage'' (nrows df_labor + i) = Some (Num wage)"
      "cell_of df' ''Attendance'' (nrows df_labor + i) = Some (Num att)"
      "cell_of df' ''Paid_Today'' (nrows df_labor + i) = Some (Num 0)"
      "cell_of df' ''Notes'' (nrows df_labor + i) = Some (Str ''Bulk'')"
      using i by (simp_all add: new labor_columns_def bulk_row_def)
    have "cell_of df'' ''Earned'' (nrows df_labor + i) = Some (Num (wage * att))"
      if "compute_earned df' = Inr df''" for df''
      using that c(4) c(5) by (rule cell_of_compute_earned)
    with c show ?thesis by blast
  qed
  from 1 a(1) 2 3 4
  show "\<exists>df'. bulk_submit fmt df_labor fs date_in selected wage att
               = (Marked (length selected), df', fs(LABOR_FILE \<mapsto> to_csv fmt df')) \<and>
        rectangular df' \<and> nrows df' = nrows df_labor + length selected \<and>
        (\<forall>i<nrows df_labor. \<forall>c \<in> set (columns df_labor). cell_of df' c i = cell_of df_labor c i) \<and>
        (\<forall>i<length selected.
           cell_of df' ''Date'' (nrows df_labor + i) = Some date_in \<and>
           cell_of df' ''Worker'' (nrows df_labor + i) = Some (selected ! i) \<and>
           cell_of df' ''Role'' (nrows df_labor + i) = Some (Str ''Regular'') \<and>
           cell_of df' ''Wage'' (nrows df_labor + i) = Some (Num wage) \<and>
           cell_of df' ''Attendance'' (nrows df_labor + i) = Some (Num att) \<and>
           cell_of df' ''Paid_Today'' (nrows df_labor + i) = Some (Num 0) \<and>
           cell_of df' ''Notes'' (nrows df_labor + i) = Some (Str ''Bulk'') \<and>
           (\<forall>df''. compute_earned df' = Inr df'' \<longrightarrow>
              cell_of df'' ''Earned'' (nrows df_labor + i) = Some (Num (wage * att))))"
    by (intro exI [of _ df'] conjI) blast+
next
  have "pd_concat (empty_frame labor_columns)
          (DataFrame (map (bulk_row d 500 (1 / 2)) [Str ''A'', Str ''B''])) = bulk_example d"
    by (simp add: pd_concat_def DataFrame_def empty_frame_def labor_columns_def bulk_row_def
        unique_vals_def columns_def colvals_def nrows_def bulk_example_def)
  then show "bulk_submit fmt (empty_frame labor_columns) fs d [Str ''A'', Str ''B''] 500 (1 / 2)
     = (Marked 2, bulk_example d, fs(LABOR_FILE \<mapsto> to_csv fmt (bulk_example d)))"
    by (simp add: bulk_submit_def Let_def save_data_def)
next
  show "compute_earned (bulk_example d)
          = Inr (bulk_example d @ [(''Earned'', [Num 250, Num 250])])"
    by (simp add: compute_earned_def bulk_example_def getcol_def bind_err_def series_mul_def
        numeric_series_def)
qed


lemma single_row_keys:
  "\<forall>r \<in> set [single_row d_date name wage att paid]. map fst r = labor_columns"
  by (simp add: single_row_def labor_columns_def)

text \<open>
  C6. With an empty name the single entry form reports that the name is required and
  returns the table and the store as they were. The name is empty when nothing was typed
  for a new worker, and when an existing worker is asked for but the table has none. With
  a name that is not empty it appends one row, with the note Single and the given fields,
  keeps the earlier rows and saves the table.
\<close>

theorem single_submit_spec:
  "single_submit fmt df_labor fs (Str []) d_date wage att paid = (NameRequired, df_labor, fs) \<and>
   final_name existing NewWorker sel typed = Str typed \<and>
   final_name [] ExistingWorker sel typed = Str [] \<and>
   (s \<noteq> [] \<and> rectangular df_labor \<longrightarrow>
     (\<exists>df'. single_submit fmt df_labor fs (Str s) d_date wage att paid
               = (Saved, df', fs(LABOR_FILE \<mapsto> to_csv fmt df')) \<and>
        rectangular df' \<and> nrows df' = nrows df_labor + 1 \<and>
        (\<forall>i<nrows df_labor. \<forall>c \<in> set (columns df_labor). cell_of df' c i = cell_of df_labor c i) \<and>
        cell_of df' ''Date'' (nrows df_labor) = Some d_date \<and>
        cell_of df' ''Worker'' (nrows df_labor) = Some (Str s) \<and>
        cell_of df' ''Role'' (nrows df_labor) = Some (Str ''Labor'') \<and>
        cell_of df' ''Wage'' (nrows df_labor) = Some (Num wage) \<and>
        cell_of df' ''Attendance'' (nrows df_labor) = Some (Num att) \<and>
        cell_of df' ''Paid_Today'' (nrows df_labor) = Some (Num paid) \<and>
        cell_of df' ''Notes'' (nrows df_labor) = Some (Str ''Single'')))"
proof (intro conjI impI)
  show "single_submit fmt df_labor fs (Str []) d_date wage att paid = (NameRequired, df_labor, fs)"
    by (simp add: single_submit_def)
  show "final_name existing NewWorker sel typed = Str typed"
    by (simp add: final_name_def)
  show "final_name [] ExistingWorker sel typed = Str []"
    by (simp add: final_name_def)
next
  assume h: "s \<noteq> [] \<and> rectangular df_labor"
  then have r: "rectangular df_labor" by simp
  define recs where "recs = [single_row d_date (Str s) wage att paid]"
  define df' where "df' = pd_concat df_labor (DataFrame recs)"
  have k: "\<forall>r \<in> set recs. map fst r = labor_columns"
    unfolding recs_def by (rule single_row_keys)
  have ne: "labor_columns \<noteq> []" by (simp add: labor_columns_def)
  note a = append_records [OF r k ne, folded df'_def]
  have 1: "single_submit fmt df_labor fs (Str s) d_date wage att paid
               = (Saved, df', fs(LABOR_FILE \<mapsto> to_csv fmt df'))"
    using h by (simp add: single_submit_def Let_def save_data_def df'_def recs_def)
  have 2: "nrows df' = nrows df_labor + 1"
    using a(2) by (simp add: recs_def)
  have 3: "\<forall>i<nrows df_labor. \<forall>c \<in> set (columns df_labor). cell_of df' c i = cell_of df_labor c i"
    using a(3) by blast
  have new: "cell_of df' c (nrows df_labor)
      = Some (case map_of (single_row d_date (Str s) wage att paid) c of
                Some v \<Rightarrow> v | None \<Rightarrow> NaN)"
    if "c \<in> set labor_columns" for c
    using a(4) [of 0 c] that by (simp add: recs_def)
  have c: "cell_of df' ''Date'' (nrows df_labor) = Some d_date"
      "cell_of df' ''Worker'' (nrows df_labor) = Some (Str s)"
      "cell_of df' ''Role'' (nrows df_labor) = Some (Str ''Labor'')"
      "cell_of df' ''Wage'' (nrows df_labor) = Some (Num wage)"
      "cell_of df' ''Attendance'' (nrows df_labor) = Some (Num att)"
      "cell_of df' ''Paid_Today'' (nrows df_labor) = Some (Num paid)"
      "cell_of df' ''Notes'' (nrows df_labor) = Some (Str ''Single'')"
    by (simp_all add: new labor_columns_def single_row_def)
  from 1 a(1) 2 3 c
  show "\<exists>df'. single_submit fmt df_labor fs (Str s) d_date wage att paid
               = (Saved, df', fs(LABOR_FILE \<mapsto> to_csv fmt df')) \<and>
        rectangular df' \<and> nrows df' = nrows df_labor + 1 \<and>
        (\<forall>i<nrows df_labor. \<forall>c \<in> set (columns df_labor). cell_of df' c i = cell_of df_labor c i) \<and>
        cell_of df' ''Date'' (nrows df_labor) = Some d_date \<and>
        cell_of df' ''Worker'' (nrows df_labor) = Some (Str s) \<and>
        cell_of df' ''Role'' (nrows df_labor) = Some (Str ''Labor'') \<and>
        cell_of df' ''Wage'' (nrows df_labor) = Some (Num wage) \<and>
        cell_of df' ''Attendance'' (nrows df_labor) = Some (Num att) \<and>
        cell_of df' ''Paid_Today'' (nrows df_labor) = Some (Num paid) \<and>
        cell_of df' ''Notes'' (nrows df_labor) = Some (Str ''Single'')"
    by (intro exI [of _ df'] conjI) blast+
qed

lemma rectangular_ex_loaded: "rectangular ex_loaded"
  by (simp add: ex_loaded_def rectangular_def nrows_def)

lemma nrows_ex_loaded: "nrows ex_loaded = 2"
  by (simp add: ex_loaded_def nrows_def)

lemma worker_ex_loaded:
  "''Worker'' \<in> set (columns ex_loaded)"
  "cell_of ex_loaded ''Worker'' 0 = Some (Str ''Ram'')"
  "cell_of ex_loaded ''Worker'' 1 = Some (Str ''Sita'')"
  by (simp_all add: ex_loaded_def columns_def cell_of_def)

theorem single_submit_spec_witness:
  "''Gita'' \<noteq> [] \<and> rectangular ex_loaded \<and>
   single_submit ex_fmt ex_loaded ex_store (Str []) (Day ''2024-01-07'') 600 1 200
     = (NameRequired, ex_loaded, ex_store) \<and>
   (\<exists>df'. single_submit ex_fmt ex_loaded ex_store (Str ''Gita'') (Day ''2024-01-07'') 600 1 200
             = (Saved, df', ex_store(LABOR_FILE \<mapsto> to_csv ex_fmt df')) \<and>
      nrows df' = 3 \<and>
      cell_of df' ''Worker'' 0 = Some (Str ''Ram'') \<and>
      cell_of df' ''Worker'' 2 = Some (Str ''Gita'') \<and>
      cell_of df' ''Paid_Today'' 2 = Some (Num 200) \<and>
      cell_of df' ''Notes'' 2 = Some (Str ''Single''))"
proof -
  note t = single_submit_spec [where fmt = ex_fmt and df_labor = ex_loaded and fs = ex_store
      and d_date = "Day ''2024-01-07''" and wage = 600 and att = 1 and paid = 200
      and s = "''Gita''"]
  have h: "''Gita'' \<noteq> [] \<and> rectangular ex_loaded"
    by (simp add: rectangular_ex_loaded)
  from t h obtain df' where
    d: "single_submit ex_fmt ex_loaded ex_store (Str ''Gita'') (Day ''2024-01-07'') 600 1 200
             = (Saved, df', ex_store(LABOR_FILE \<mapsto> to_csv ex_fmt df'))"
      "nrows df' = nrows ex_loaded + 1"
      "\<forall>i<nrows ex_loaded. \<forall>c \<in> set (columns ex_loaded). cell_of df' c i = cell_of ex_loaded c i"
      "cell_of df' ''Worker'' (nrows ex_loaded) = Some (Str ''Gita'')"
      "cell_of df' ''Paid_Today'' (nrows ex_loaded) = Some (Num 200)"
      "cell_of df' ''Notes'' (nrows ex_loaded) = Some (Str ''Single'')"
    by blast
  from d(3) [rule_format, of 0 "''Worker''"]
  have w0: "cell_of df' ''Worker'' 0 = Some (Str ''Ram'')"
    by (simp add: nrows_ex_loaded worker_ex_loaded)
  from t have e: "single_submit ex_fmt ex_loaded ex_store (Str []) (Day ''2024-01-07'') 600 1 200
     = (NameRequired, ex_loaded, ex_store)"
    by blast
  from d w0 e h show ?thesis
    by (simp add: nrows_ex_loaded)
qed

theorem bulk_submit_spec_witness:
  "rectangular ex_loaded \<and>
   (\<exists>df'. bulk_submit ex_fmt ex_loaded ex_store (Day ''2024-01-07'') [Str ''Ram'', Str ''Sita'']
             500 (1 / 2)
             = (Marked 2, df', ex_store(LABOR_FILE \<mapsto> to_csv ex_fmt df')) \<and>
      nrows df' = 4 \<and>
      cell_of df' ''Worker'' 1 = Some (Str ''Sita'') \<and>
      cell_of df' ''Worker'' 2 = Some (Str ''Ram'') \<and>
      cell_of df' ''Worker'' 3 = Some (Str ''Sita'') \<and>
      cell_of df' ''Paid_Today'' 3 = Some (Num 0) \<and>
      cell_of df' ''Notes'' 3 = Some (Str ''Bulk''))"
proof -
  note t = bulk_submit_spec [where fmt = ex_fmt and df_labor = ex_loaded and fs = ex_store
      and date_in = "Day ''2024-01-07''" and selected = "[Str ''Ram'', Str ''Sita'']"
      and wage = 500 and att = "1 / 2"]
  from t rectangular_ex_loaded obtain df' where
    d: "bulk_submit ex_fmt ex_loaded ex_store (Day ''2024-01-07'') [Str ''Ram'', Str ''Sita'']
             500 (1 / 2)
             = (Marked (length [Str ''Ram'', Str ''Sita'']), df',
                ex_store(LABOR_FILE \<mapsto> to_csv ex_fmt df'))"
      "nrows df' = nrows ex_loaded + length [Str ''Ram'', Str ''Sita'']"
      "\<forall>i<nrows ex_loaded. \<forall>c \<in> set (columns ex_loaded). cell_of df' c i = cell_of ex_loaded c i"
    and n: "\<forall>i<length [Str ''Ram'', Str ''Sita''].
           cell_of df' ''Worker'' (nrows ex_loaded + i) = Some ([Str ''Ram'', Str ''Sita''] ! i) \<and>
           cell_of df' ''Paid_Today'' (nrows ex_loaded + i) = Some (Num 0) \<and>
           cell_of df' ''Notes'' (nrows ex_loaded + i) = Some (Str ''Bulk'')"
    by blast
  from d(3) [rule_format, of 1 "''Worker''"] worker_ex_loaded
  have w1: "cell_of df' ''Worker'' 1 = Some (Str ''Sita'')"
    by (simp add: nrows_ex_loaded)
  from n [rule_format, of 0] have n0: "cell_of df' ''Worker'' 2 = Some (Str ''Ram'')"
    by (simp add: nrows_ex_loaded)
  from n [rule_format, of 1] have n1: "cell_of df' ''Worker'' 3 = Some (Str ''Sita'')"
    "cell_of df' ''Paid_Today'' 3 = Some (Num 0)" "cell_of df' ''Notes'' 3 = Some (Str ''Bulk'')"
    by (simp_all add: nrows_ex_loaded)
  from d(1,2) w1 n0 n1 rectangular_ex_loaded show ?thesis
    by (simp add: nrows_ex_loaded)
qed

section \<open>Saving, then loading\<close>




lemma columns_to_csv: "fst (to_csv fmt df) = columns df"
  by (simp add: to_csv_def)











section \<open>The Earned column and the store\<close>














end
